theory Spec2Isabelle
  imports Main "HOL-Library.Sublist" "HOL-Library.Monad_Syntax"
begin

section \<open>Strings\<close>

text \<open>
  The server in \<^verbatim>\<open>src/index.js\<close> works on JavaScript strings. They are modelled as
  \<^typ>\<open>string\<close>, a list of 8-bit characters, read as ASCII text: \<open>toLowerCase\<close> lowers
  the letters A to Z and leaves every other character alone, the white space of \<open>trim\<close>
  is the ASCII white space, and the line terminators that the regular expression's dot
  refuses are line feed and carriage return.
\<close>

definition to_lower :: "char \<Rightarrow> char" where
  "to_lower c =
     (let n = (of_char c :: nat) in if 65 \<le> n \<and> n \<le> 90 then char_of (n + 32) else c)"

definition toLowerCase :: "string \<Rightarrow> string" where
  "toLowerCase s = map to_lower s"

text \<open>\<^verbatim>\<open>s.includes(t)\<close>: \<open>t\<close> occurs in \<open>s\<close> as a contiguous block.\<close>

definition str_includes :: "string \<Rightarrow> string \<Rightarrow> bool" where
  "str_includes s t = sublist t s"

definition is_space :: "char \<Rightarrow> bool" where
  "is_space c = ((of_char c :: nat) \<in> {9, 10, 11, 12, 13, 32})"

definition trim :: "string \<Rightarrow> string" where
  "trim s = rev (dropWhile is_space (rev (dropWhile is_space s)))"

definition nl :: string where
  "nl = [CHR 0x0A]"

text \<open>\<^verbatim>\<open>xs[i]\<close> on an array: \<open>undefined\<close> out of range, which is \<open>None\<close> here.\<close>

definition at :: "'a list \<Rightarrow> int \<Rightarrow> 'a option" where
  "at xs i = (if 0 \<le> i \<and> i < int (length xs) then Some (xs ! nat i) else None)"

section \<open>The comparison pattern\<close>

text \<open>
  \<^verbatim>\<open>/compare (the )?file (about|with) (.+?) (and|with) (the )?file (about|with) (.+)/i\<close>

  The matcher is the backtracking one of JavaScript, written as a list of successes:
  every piece of the pattern maps an input to the inputs that remain after it, the
  choice tried first coming first. A literal is compared without regard to the case of
  letters (flag \<open>i\<close>); an optional group is tried present, then absent; an alternative
  left to right; the lazy \<open>.+?\<close> from the shortest run to the longest, the greedy
  \<open>.+\<close> from the longest to the shortest. The match returned is the first success at
  the leftmost starting position that has one.
\<close>

definition lit :: "string \<Rightarrow> string \<Rightarrow> string list" where
  "lit p s =
     (if length p \<le> length s \<and> toLowerCase (take (length p) s) = toLowerCase p
      then [drop (length p) s] else [])"

definition opt_the :: "string \<Rightarrow> string list" where
  "opt_the s = lit ''the '' s @ [s]"

definition about_or_with :: "string \<Rightarrow> string list" where
  "about_or_with s = lit ''about'' s @ lit ''with'' s"

definition and_or_with :: "string \<Rightarrow> string list" where
  "and_or_with s = lit ''and'' s @ lit ''with'' s"

definition line_terminator :: "char \<Rightarrow> bool" where
  "line_terminator c = ((of_char c :: nat) \<in> {10, 13})"

definition dot_run :: "string \<Rightarrow> nat" where
  "dot_run s = length (takeWhile (\<lambda>c. \<not> line_terminator c) s)"

definition dot_plus_lazy :: "string \<Rightarrow> (string \<times> string) list" where
  "dot_plus_lazy s = map (\<lambda>n. (take n s, drop n s)) [1 ..< Suc (dot_run s)]"

definition dot_plus_greedy :: "string \<Rightarrow> (string \<times> string) list" where
  "dot_plus_greedy s = map (\<lambda>n. (take n s, drop n s)) (rev [1 ..< Suc (dot_run s)])"

text \<open>All matches that start at the head of the input, as the groups 3 and 7.\<close>

definition match_here :: "string \<Rightarrow> (string \<times> string) list" where
  "match_here s = do {
     s1 \<leftarrow> lit ''compare '' s;
     s2 \<leftarrow> opt_the s1;
     s3 \<leftarrow> lit ''file '' s2;
     s4 \<leftarrow> about_or_with s3;
     s5 \<leftarrow> lit '' '' s4;
     (g3, s6) \<leftarrow> dot_plus_lazy s5;
     s7 \<leftarrow> lit '' '' s6;
     s8 \<leftarrow> and_or_with s7;
     s9 \<leftarrow> lit '' '' s8;
     s10 \<leftarrow> opt_the s9;
     s11 \<leftarrow> lit ''file '' s10;
     s12 \<leftarrow> about_or_with s11;
     s13 \<leftarrow> lit '' '' s12;
     (g7, s14) \<leftarrow> dot_plus_greedy s13;
     [(g3, g7)]
   }"

text \<open>\<^verbatim>\<open>question.match(regex)\<close>: the starting positions from left to right.\<close>

fun regex_match :: "string \<Rightarrow> (string \<times> string) option" where
  "regex_match [] = (case match_here [] of [] \<Rightarrow> None | m # _ \<Rightarrow> Some m)"
| "regex_match (c # s) =
     (case match_here (c # s) of [] \<Rightarrow> regex_match s | m # _ \<Rightarrow> Some m)"

definition extractFileTopics :: "string \<Rightarrow> (string \<times> string) option" where
  "extractFileTopics question =
     (case regex_match question of
        Some (g3, g7) \<Rightarrow> Some (toLowerCase g3, toLowerCase g7)
      | None \<Rightarrow> None)"

section \<open>The shared state\<close>

text \<open>
  An element of \<^verbatim>\<open>fileCache\<close> is the object \<^verbatim>\<open>{ context, content }\<close>; the field
  \<^verbatim>\<open>context\<close> holds the value of the local \<^verbatim>\<open>fileContext\<close>, the topic inferred for the
  file. The three module variables \<^verbatim>\<open>fileCache\<close>, \<^verbatim>\<open>activeFile\<close> and \<^verbatim>\<open>compareMode\<close>
  are the state; \<^verbatim>\<open>activeFile\<close> holds an element of the cache, \<^verbatim>\<open>null\<close> or
  \<^verbatim>\<open>undefined\<close>, the last two being \<open>None\<close>. The elements are never mutated, so a
  reference to one is modelled by its value.
\<close>

record file_entry =
  file_context :: string
  content :: string

record state =
  fileCache :: "file_entry list"
  activeFile :: "file_entry option"
  compareMode :: bool

definition initial_state :: state where
  "initial_state = \<lparr>fileCache = [], activeFile = None, compareMode = False\<rparr>"

section \<open>The completion service\<close>

text \<open>
  \<^verbatim>\<open>openai.chat.completions.create\<close> is outside the program: it is a parameter that
  maps the messages of a call to the text of the first choice, or to \<open>None\<close> when the
  call throws. A message is its role and its content.
\<close>

type_synonym message = "string \<times> string"
type_synonym completions = "message list \<Rightarrow> string option"

definition contextRequest :: "string \<Rightarrow> message list" where
  "contextRequest fileContent =
     [(''system'', ''You are a helpful assistant who categorizes files based on their content.''),
      (''user'', ''Can you briefly describe the topic of this content: '' @ take 1000 fileContent)]"

definition determineFileContext :: "completions \<Rightarrow> string \<Rightarrow> string option" where
  "determineFileContext create fileContent =
     (case create (contextRequest fileContent) of
        None \<Rightarrow> None
      | Some reply \<Rightarrow> Some (toLowerCase (trim reply)))"

definition answer_messages :: "string \<Rightarrow> string \<Rightarrow> message list" where
  "answer_messages fileContent question =
     [(''system'', ''You are a helpful assistant that answers questions based on one or more files or general queries.''),
      (''user'', ''File Content: '' @ fileContent),
      (''user'', ''Question: '' @ question)]"

section \<open>Ingesting an upload (lines 63 to 79)\<close>

text \<open>Lines 77 and 78: push the new element, then make the last element the active one.\<close>

definition ingest :: "file_entry \<Rightarrow> state \<Rightarrow> state" where
  "ingest d st =
     (let cache = fileCache st @ [d]
      in st\<lparr>fileCache := cache, activeFile := at cache (int (length cache) - 1)\<rparr>)"

text \<open>
  \<^verbatim>\<open>req.file\<close>: absent, a file whose text was read, or a file whose reading or PDF
  extraction throws.
\<close>

datatype upload = NoFile | FileText string | FileUnreadable

text \<open>
  The result is \<open>Inl\<close> when an exception leaves the block, \<open>Inr\<close> otherwise, in both
  cases with the completion calls made so far.
\<close>

fun read_and_ingest :: "completions \<Rightarrow> upload \<Rightarrow> state \<Rightarrow> message list list + message list list \<times> state" where
  "read_and_ingest create NoFile st = Inr ([], st)"
| "read_and_ingest create FileUnreadable st = Inl []"
| "read_and_ingest create (FileText fileContent) st =
     (case determineFileContext create fileContent of
        None \<Rightarrow> Inl [contextRequest fileContent]
      | Some fileContext \<Rightarrow>
          Inr ([contextRequest fileContent],
               ingest \<lparr>file_context = fileContext, content = fileContent\<rparr> st))"

section \<open>Resolving the context (lines 82 to 125)\<close>

datatype failure = ComparisonUnavailable | TypeError

definition comparison_block :: "file_entry \<Rightarrow> file_entry \<Rightarrow> string" where
  "comparison_block foundFile1 foundFile2 =
     ''Comparison between files about '' @ file_context foundFile1 @ '' and ''
       @ file_context foundFile2 @ '':'' @ nl @ nl
       @ ''File 1 ('' @ file_context foundFile1 @ ''):'' @ nl @ content foundFile1 @ nl @ nl
       @ ''File 2 ('' @ file_context foundFile2 @ ''):'' @ nl @ content foundFile2"

definition both_files_block :: "string \<Rightarrow> string \<Rightarrow> string" where
  "both_files_block firstFileContent secondFileContent =
     ''Both Files:'' @ nl @ nl @ ''First File:'' @ nl @ firstFileContent @ nl @ nl
       @ ''Second File:'' @ nl @ secondFileContent"

definition general_question :: "string \<Rightarrow> string" where
  "general_question question = ''General Question:'' @ nl @ nl @ question"

text \<open>\<^verbatim>\<open>question && question.toLowerCase().includes(phrase)\<close>; the empty string is falsy.\<close>

definition mentions :: "string \<Rightarrow> string \<Rightarrow> bool" where
  "mentions question phrase = (question \<noteq> [] \<and> str_includes (toLowerCase question) phrase)"

text \<open>Lines 96 to 108: the explicit switch between files.\<close>

definition switch_files :: "string \<Rightarrow> state \<Rightarrow> state" where
  "switch_files question st =
     (let firstFile = at (fileCache st) 0; secondFile = at (fileCache st) 1
      in if mentions question ''first file'' then st\<lparr>activeFile := firstFile, compareMode := False\<rparr>
         else if mentions question ''second file'' then st\<lparr>activeFile := secondFile, compareMode := False\<rparr>
         else if mentions question ''both files'' then st\<lparr>compareMode := True\<rparr>
         else st)"

text \<open>
  Lines 111 to 124: the text that becomes \<^verbatim>\<open>fileContent\<close>. Reading \<^verbatim>\<open>.content\<close> of
  \<^verbatim>\<open>undefined\<close> throws a TypeError. The flag \<open>file\<close> is the truthiness of \<^verbatim>\<open>req.file\<close>.
\<close>

definition materialize :: "string \<Rightarrow> bool \<Rightarrow> state \<Rightarrow> failure + string" where
  "materialize question file st =
     (if compareMode st \<and> 2 \<le> length (fileCache st) then
        (case (at (fileCache st) 0, at (fileCache st) 1) of
           (Some f0, Some f1) \<Rightarrow> Inr (both_files_block (content f0) (content f1))
         | _ \<Rightarrow> Inl TypeError)
      else
        (case activeFile st of
           Some a \<Rightarrow> Inr (content a)
         | None \<Rightarrow>
             if \<not> file \<and> length (fileCache st) = 0 then Inr (general_question question)
             else
               (case at (fileCache st) (int (length (fileCache st)) - 1) of
                  Some latestFile \<Rightarrow> Inr (content latestFile)
                | None \<Rightarrow> Inl TypeError)))"

text \<open>
  Lines 82 to 125 as a whole. The result is the context, or the failure that ends the
  request, with the state as the block leaves it.
\<close>

definition resolveContext :: "string \<Rightarrow> bool \<Rightarrow> state \<Rightarrow> (failure + string) \<times> state" where
  "resolveContext question file st =
     (case extractFileTopics question of
        Some (topic1, topic2) \<Rightarrow>
          (case (find (\<lambda>f. str_includes (file_context f) topic1) (fileCache st),
                 find (\<lambda>f. str_includes (file_context f) topic2) (fileCache st)) of
             (Some foundFile1, Some foundFile2) \<Rightarrow> (Inr (comparison_block foundFile1 foundFile2), st)
           | _ \<Rightarrow> (Inl ComparisonUnavailable, st))
      | None \<Rightarrow>
          (let st' = switch_files question st in (materialize question file st', st')))"

section \<open>The handler of \<^verbatim>\<open>POST /upload\<close>\<close>

datatype response = AnswerJson string | ErrorJson nat string

definition comparison_unavailable :: response where
  "comparison_unavailable = ErrorJson 400 ''One or both files are not available for comparison.''"

definition processing_failure :: response where
  "processing_failure = ErrorJson 500 ''Error processing the request''"

text \<open>
  The handler takes \<^verbatim>\<open>req.body.question\<close> (\<open>None\<close> when the field is absent, and then
  \<^verbatim>\<open>question.match\<close> throws) and \<^verbatim>\<open>req.file\<close>, and returns the response, the completion
  calls it made, in order, and the state it leaves.
\<close>

definition upload_handler ::
  "completions \<Rightarrow> string option \<Rightarrow> upload \<Rightarrow> state \<Rightarrow> response \<times> message list list \<times> state" where
  "upload_handler create question file st =
     (case read_and_ingest create file st of
        Inl calls \<Rightarrow> (processing_failure, calls, st)
      | Inr (calls, st1) \<Rightarrow>
          (case question of
             None \<Rightarrow> (processing_failure, calls, st1)
           | Some q \<Rightarrow>
               (case resolveContext q (file \<noteq> NoFile) st1 of
                  (Inl ComparisonUnavailable, st2) \<Rightarrow> (comparison_unavailable, calls, st2)
                | (Inl TypeError, st2) \<Rightarrow> (processing_failure, calls, st2)
                | (Inr fileContent, st2) \<Rightarrow>
                    (case create (answer_messages fileContent q) of
                       None \<Rightarrow> (processing_failure, calls @ [answer_messages fileContent q], st2)
                     | Some assistantMessage \<Rightarrow>
                         (AnswerJson assistantMessage, calls @ [answer_messages fileContent q], st2)))))"

section \<open>Auxiliary facts\<close>

lemma to_lower_idem: "to_lower (to_lower c) = to_lower c"
proof -
  have "(of_char (char_of (of_char c + 32 :: nat)) :: nat) = (of_char c + 32) mod 256"
    by simp
  then show ?thesis
    by (auto simp add: to_lower_def Let_def)
qed

lemma toLowerCase_idem: "toLowerCase (toLowerCase s) = toLowerCase s"
  by (simp add: toLowerCase_def to_lower_idem)

lemma extractFileTopics_lower:
  "extractFileTopics q = Some (t1, t2) \<Longrightarrow> toLowerCase t1 = t1 \<and> toLowerCase t2 = t2"
  by (auto simp: extractFileTopics_def toLowerCase_idem split: option.splits)

lemma str_includes_toLowerCase:
  "str_includes s t \<Longrightarrow> str_includes (toLowerCase s) (toLowerCase t)"
  unfolding str_includes_def toLowerCase_def by (rule map_mono_sublist)

lemma mentions_iff: "p \<noteq> [] \<Longrightarrow> mentions q p = str_includes (toLowerCase q) p"
  by (auto simp: mentions_def str_includes_def toLowerCase_def)

lemma resolve_compare_fail:
  assumes "extractFileTopics q = Some (topic1, topic2)"
    and "find (\<lambda>f. str_includes (file_context f) topic1) (fileCache st) = None
         \<or> find (\<lambda>f. str_includes (file_context f) topic2) (fileCache st) = None"
  shows "resolveContext q flag st = (Inl ComparisonUnavailable, st)"
  using assms by (auto simp: resolveContext_def split: option.splits)

lemma resolve_compare_found:
  assumes "extractFileTopics q = Some (topic1, topic2)"
    and "find (\<lambda>f. str_includes (file_context f) topic1) (fileCache st) = Some foundFile1"
    and "find (\<lambda>f. str_includes (file_context f) topic2) (fileCache st) = Some foundFile2"
  shows "resolveContext q flag st = (Inr (comparison_block foundFile1 foundFile2), st)"
  using assms by (simp add: resolveContext_def)

lemma resolve_no_compare:
  assumes "extractFileTopics q = None"
  shows "resolveContext q flag st = (materialize q flag (switch_files q st), switch_files q st)"
  using assms by (simp add: resolveContext_def Let_def)

lemma read_and_ingest_calls:
  assumes "read_and_ingest create file st = Inr (calls, st1)"
  shows "calls = [] \<or> (\<exists>text. calls = [contextRequest text])"
  using assms by (cases "file") (auto split: option.splits)

lemma answer_not_contextRequest: "answer_messages fileContent q \<noteq> contextRequest text"
  by (simp add: answer_messages_def contextRequest_def)

lemma switch_files_cache: "fileCache (switch_files q st) = fileCache st"
  by (simp add: switch_files_def Let_def)

lemma find_Some_ex:
  assumes "d \<in> set xs" and "P d"
  shows "\<exists>found. find P xs = Some found \<and> found \<in> set xs \<and> P found"
proof (cases "find P xs")
  case None
  with assms show ?thesis by (auto simp: find_None_iff)
next
  case (Some found)
  then show ?thesis by (auto simp: find_Some_iff)
qed

lemma find_first:
  assumes "d \<in> set xs" and "P d" and "\<forall>e \<in> set (takeWhile (\<lambda>e. e \<noteq> d) xs). \<not> P e"
  shows "find P xs = Some d"
  using assms by (induction xs) (auto split: if_splits)

lemma ingest_eq: "ingest d st = st\<lparr>fileCache := fileCache st @ [d], activeFile := Some d\<rparr>"
  by (simp add: ingest_def Let_def at_def)

lemma read_and_ingest_nonempty:
  assumes "read_and_ingest create file st = Inr (calls, st1)" and "file \<noteq> NoFile"
  shows "fileCache st1 \<noteq> []"
  using assms by (cases "file") (auto simp: ingest_def Let_def split: option.splits)

lemma materialize_defined:
  assumes "flag \<longrightarrow> fileCache st \<noteq> []"
  shows "\<exists>ctx. materialize q flag st = Inr ctx"
proof (cases "compareMode st \<and> 2 \<le> length (fileCache st)")
  case True
  then obtain f0 f1 rest where "fileCache st = f0 # f1 # rest"
    by (cases "fileCache st"; cases "tl (fileCache st)") auto
  with True show ?thesis
    by (simp add: materialize_def at_def)
next
  case False
  show ?thesis
  proof (cases "activeFile st")
    case (Some a)
    with False show ?thesis by (auto simp: materialize_def)
  next
    case None
    show ?thesis
    proof (cases "fileCache st = []")
      case True
      with assms have "\<not> flag" by simp
      with True None False show ?thesis by (simp add: materialize_def)
    next
      case nonempty: False
      then have "at (fileCache st) (int (length (fileCache st)) - 1)
                 = Some (fileCache st ! (length (fileCache st) - 1))"
        by (cases "fileCache st") (auto simp: at_def nat_diff_distrib')
      with nonempty None False show ?thesis by (auto simp: materialize_def)
    qed
  qed
qed

section \<open>A failed comparison ends the request\<close>

text \<open>
  C1. When the question matches the comparison pattern and, in the cache as the upload
  step leaves it, no element's topic contains the first extracted topic or none contains
  the second, lines 82 to 93 fail with ComparisonUnavailable, the handler answers with
  status 400 and the message of line 92, and the completion calls it made are those of
  the upload step alone: none of them is the call that asks for the answer.
\<close>

theorem comparison_unavailable_without_answer_call:
  assumes "extractFileTopics q = Some (topic1, topic2)"
    and "read_and_ingest create file st = Inr (calls, st1)"
    and "(\<forall>d \<in> set (fileCache st1). \<not> str_includes (file_context d) topic1)
         \<or> (\<forall>d \<in> set (fileCache st1). \<not> str_includes (file_context d) topic2)"
  shows "resolveContext q (file \<noteq> NoFile) st1 = (Inl ComparisonUnavailable, st1)
     \<and> upload_handler create (Some q) file st
         = (ErrorJson 400 ''One or both files are not available for comparison.'', calls, st1)
     \<and> (\<forall>fileContent. answer_messages fileContent q \<notin> set calls)"
proof -
  from assms(3)
  have none: "find (\<lambda>f. str_includes (file_context f) topic1) (fileCache st1) = None
         \<or> find (\<lambda>f. str_includes (file_context f) topic2) (fileCache st1) = None"
    by (auto simp: find_None_iff)
  have r: "resolveContext q (file \<noteq> NoFile) st1 = (Inl ComparisonUnavailable, st1)"
    by (rule resolve_compare_fail [OF assms(1) none])
  have h: "upload_handler create (Some q) file st
         = (ErrorJson 400 ''One or both files are not available for comparison.'', calls, st1)"
    by (simp add: upload_handler_def assms(2) r comparison_unavailable_def)
  have c: "\<forall>fileContent. answer_messages fileContent q \<notin> set calls"
    using read_and_ingest_calls [OF assms(2)] answer_not_contextRequest by auto
  from r h c show ?thesis by blast
qed

theorem comparison_unavailable_without_answer_call_witness:
  "extractFileTopics ''compare the file about robots and the file about blockchain''
     = Some (''robots'', ''blockchain'')
   \<and> upload_handler (\<lambda>m. Some '' Robots in Industry '')
        (Some ''compare the file about robots and the file about blockchain'')
        (FileText ''Robots weld cars.'') initial_state
     = (ErrorJson 400 ''One or both files are not available for comparison.'',
        [contextRequest ''Robots weld cars.''],
        \<lparr>fileCache = [\<lparr>file_context = ''robots in industry'', content = ''Robots weld cars.''\<rparr>],
         activeFile = Some \<lparr>file_context = ''robots in industry'', content = ''Robots weld cars.''\<rparr>,
         compareMode = False\<rparr>)"
proof -
  let ?q = "''compare the file about robots and the file about blockchain''"
  let ?d = "\<lparr>file_context = ''robots in industry'', content = ''Robots weld cars.''\<rparr>"
  let ?st1 = "\<lparr>fileCache = [?d], activeFile = Some ?d, compareMode = False\<rparr>"
  have a: "extractFileTopics ?q = Some (''robots'', ''blockchain'')"
    by code_simp
  have b: "read_and_ingest (\<lambda>m. Some '' Robots in Industry '') (FileText ''Robots weld cars.'')
             initial_state = Inr ([contextRequest ''Robots weld cars.''], ?st1)"
    by code_simp
  have c: "(\<forall>d \<in> set (fileCache ?st1). \<not> str_includes (file_context d) ''robots'')
         \<or> (\<forall>d \<in> set (fileCache ?st1). \<not> str_includes (file_context d) ''blockchain'')"
    by code_simp
  show ?thesis
    using comparison_unavailable_without_answer_call [OF a b c] a
    by simp
qed

section \<open>Ingestion\<close>

text \<open>
  C5. For every state and every document, lines 77 and 78 leave a cache that is the old
  cache followed by the document, which is therefore its last element and behind
  unchanged earlier elements, and make the document the active file whatever the active
  file was; the comparison mode is not touched.
\<close>

theorem ingest_appends_and_activates:
  "fileCache (ingest d st) = fileCache st @ [d]
   \<and> last (fileCache (ingest d st)) = d
   \<and> take (length (fileCache st)) (fileCache (ingest d st)) = fileCache st
   \<and> length (fileCache (ingest d st)) = Suc (length (fileCache st))
   \<and> activeFile (ingest d st) = Some d
   \<and> compareMode (ingest d st) = compareMode st"
  by (simp add: ingest_def Let_def at_def)

section \<open>A comparison that succeeds\<close>

text \<open>
  C2, as amended. When the question matches the comparison pattern and the first cache
  element whose topic contains the first extracted topic is \<open>foundFile1\<close>, the first whose
  topic contains the second is \<open>foundFile2\<close>, the context is the block of line 90: it names
  the two stored topics and carries the full content of both elements, the element found
  for the first topic of the question as File 1 and the one found for the second as File 2,
  whatever their positions in the cache. The state is left as it was.
\<close>

theorem comparison_block_in_question_order:
  assumes "extractFileTopics q = Some (topic1, topic2)"
    and "find (\<lambda>f. str_includes (file_context f) topic1) (fileCache st) = Some foundFile1"
    and "find (\<lambda>f. str_includes (file_context f) topic2) (fileCache st) = Some foundFile2"
  shows "resolveContext q flag st =
     (Inr (''Comparison between files about '' @ file_context foundFile1 @ '' and ''
           @ file_context foundFile2 @ '':'' @ nl @ nl
           @ ''File 1 ('' @ file_context foundFile1 @ ''):'' @ nl @ content foundFile1 @ nl @ nl
           @ ''File 2 ('' @ file_context foundFile2 @ ''):'' @ nl @ content foundFile2), st)"
  using resolve_compare_found [OF assms] by (simp add: comparison_block_def)

theorem comparison_block_in_question_order_witness:
  "resolveContext ''Compare the file about Blockchain and the file about robots'' False
     \<lparr>fileCache = [\<lparr>file_context = ''robots in industry'', content = ''R''\<rparr>,
                  \<lparr>file_context = ''introduction to blockchain technology'', content = ''B''\<rparr>],
      activeFile = None, compareMode = False\<rparr>
   = (Inr (''Comparison between files about introduction to blockchain technology and robots in industry:''
           @ nl @ nl @ ''File 1 (introduction to blockchain technology):'' @ nl @ ''B'' @ nl @ nl
           @ ''File 2 (robots in industry):'' @ nl @ ''R''),
      \<lparr>fileCache = [\<lparr>file_context = ''robots in industry'', content = ''R''\<rparr>,
                  \<lparr>file_context = ''introduction to blockchain technology'', content = ''B''\<rparr>],
      activeFile = None, compareMode = False\<rparr>)"
proof -
  let ?q = "''Compare the file about Blockchain and the file about robots''"
  let ?r = "\<lparr>file_context = ''robots in industry'', content = ''R''\<rparr>"
  let ?b = "\<lparr>file_context = ''introduction to blockchain technology'', content = ''B''\<rparr>"
  let ?st = "\<lparr>fileCache = [?r, ?b], activeFile = None, compareMode = False\<rparr>"
  have a: "extractFileTopics ?q = Some (''blockchain'', ''robots'')"
    by code_simp
  have b: "find (\<lambda>f. str_includes (file_context f) ''blockchain'') (fileCache ?st) = Some ?b"
    by code_simp
  have c: "find (\<lambda>f. str_includes (file_context f) ''robots'') (fileCache ?st) = Some ?r"
    by code_simp
  show ?thesis
    using comparison_block_in_question_order [OF a b c, of False] by simp
qed

text \<open>
  The order is that of the question, not that of the cache: with the robots file stored
  before the blockchain file and a question that names blockchain first, File 1 is the
  element stored second.
\<close>

theorem comparison_block_not_in_stored_order:
  "fst (resolveContext ''compare the file about blockchain and the file about robots'' False
     \<lparr>fileCache = [\<lparr>file_context = ''robots'', content = ''R''\<rparr>,
                  \<lparr>file_context = ''blockchain'', content = ''B''\<rparr>],
      activeFile = None, compareMode = False\<rparr>)
   = Inr (''Comparison between files about blockchain and robots:'' @ nl @ nl
          @ ''File 1 (blockchain):'' @ nl @ ''B'' @ nl @ nl @ ''File 2 (robots):'' @ nl @ ''R'')
   \<and> fst (resolveContext ''compare the file about blockchain and the file about robots'' False
     \<lparr>fileCache = [\<lparr>file_context = ''robots'', content = ''R''\<rparr>,
                  \<lparr>file_context = ''blockchain'', content = ''B''\<rparr>],
      activeFile = None, compareMode = False\<rparr>)
   \<noteq> Inr (''Comparison between files about robots and blockchain:'' @ nl @ nl
          @ ''File 1 (robots):'' @ nl @ ''R'' @ nl @ nl @ ''File 2 (blockchain):'' @ nl @ ''B'')"
  by code_simp

section \<open>The general question\<close>

text \<open>
  C3, as amended. With an empty cache, no uploaded file, a question that does not match
  the comparison pattern and no active file after the switch step, the context is the
  label \<^verbatim>\<open>General Question:\<close>, an empty line and the question text; no document text is
  part of it.
\<close>

theorem general_question_context:
  assumes "fileCache st = []"
    and "extractFileTopics q = None"
    and "activeFile (switch_files q st) = None"
  shows "resolveContext q False st = (Inr (''General Question:'' @ nl @ nl @ q), switch_files q st)"
proof -
  have "fileCache (switch_files q st) = []"
    using assms(1) by (simp add: switch_files_def Let_def)
  then have "materialize q False (switch_files q st) = Inr (general_question q)"
    using assms(3) by (simp add: materialize_def)
  then show ?thesis
    by (simp add: resolve_no_compare [OF assms(2)] general_question_def)
qed

theorem general_question_context_witness:
  "resolveContext ''What is a robot?'' False initial_state
   = (Inr (''General Question:'' @ nl @ nl @ ''What is a robot?''), initial_state)"
proof -
  have a: "fileCache initial_state = []" by code_simp
  have b: "extractFileTopics ''What is a robot?'' = None" by code_simp
  have c: "activeFile (switch_files ''What is a robot?'' initial_state) = None" by code_simp
  have d: "switch_files ''What is a robot?'' initial_state = initial_state" by code_simp
  show ?thesis
    using general_question_context [OF a b c] d by simp
qed

text \<open>The context is not the question alone: line 119 puts the label in front of it.\<close>

theorem general_question_is_not_bare:
  "fst (resolveContext ''What is a robot?'' False
          \<lparr>fileCache = [], activeFile = None, compareMode = False\<rparr>)
   \<noteq> Inr ''What is a robot?''"
  by code_simp

section \<open>Both files\<close>

text \<open>
  C4, as amended. When the cache starts with \<open>D1\<close>, \<open>D2\<close> and the question does not
  match the comparison pattern, contains \<^verbatim>\<open>both files\<close> and contains neither
  \<^verbatim>\<open>first file\<close> nor \<^verbatim>\<open>second file\<close> (all three without regard to case), the context is
  the block of line 114 with the content of \<open>D1\<close> as First File and that of \<open>D2\<close> as
  Second File; the elements behind them play no part. Comparison mode is on afterwards.
\<close>

theorem both_files_context:
  assumes "extractFileTopics q = None"
    and "\<not> str_includes (toLowerCase q) ''first file''"
    and "\<not> str_includes (toLowerCase q) ''second file''"
    and "str_includes (toLowerCase q) ''both files''"
    and "fileCache st = D1 # D2 # rest"
  shows "resolveContext q flag st =
     (Inr (''Both Files:'' @ nl @ nl @ ''First File:'' @ nl @ content D1 @ nl @ nl
           @ ''Second File:'' @ nl @ content D2),
      st\<lparr>compareMode := True\<rparr>)"
proof -
  have s: "switch_files q st = st\<lparr>compareMode := True\<rparr>"
    using assms(2-4) by (simp add: switch_files_def Let_def mentions_iff)
  have "materialize q flag (st\<lparr>compareMode := True\<rparr>)
        = Inr (both_files_block (content D1) (content D2))"
    using assms(5) by (simp add: materialize_def at_def)
  then show ?thesis
    by (simp add: resolve_no_compare [OF assms(1)] s both_files_block_def)
qed

theorem both_files_context_witness:
  "resolveContext ''Summarise BOTH files'' False
     \<lparr>fileCache = [\<lparr>file_context = ''robots'', content = ''R''\<rparr>,
                  \<lparr>file_context = ''blockchain'', content = ''B''\<rparr>,
                  \<lparr>file_context = ''cooking'', content = ''C''\<rparr>],
      activeFile = Some \<lparr>file_context = ''cooking'', content = ''C''\<rparr>, compareMode = False\<rparr>
   = (Inr (''Both Files:'' @ nl @ nl @ ''First File:'' @ nl @ ''R'' @ nl @ nl
           @ ''Second File:'' @ nl @ ''B''),
      \<lparr>fileCache = [\<lparr>file_context = ''robots'', content = ''R''\<rparr>,
                  \<lparr>file_context = ''blockchain'', content = ''B''\<rparr>,
                  \<lparr>file_context = ''cooking'', content = ''C''\<rparr>],
      activeFile = Some \<lparr>file_context = ''cooking'', content = ''C''\<rparr>, compareMode = True\<rparr>)"
proof -
  let ?q = "''Summarise BOTH files''"
  let ?r = "\<lparr>file_context = ''robots'', content = ''R''\<rparr>"
  let ?b = "\<lparr>file_context = ''blockchain'', content = ''B''\<rparr>"
  let ?c = "\<lparr>file_context = ''cooking'', content = ''C''\<rparr>"
  let ?st = "\<lparr>fileCache = [?r, ?b, ?c], activeFile = Some ?c, compareMode = False\<rparr>"
  have a: "extractFileTopics ?q = None" by code_simp
  have b: "\<not> str_includes (toLowerCase ?q) ''first file''" by code_simp
  have c: "\<not> str_includes (toLowerCase ?q) ''second file''" by code_simp
  have d: "str_includes (toLowerCase ?q) ''both files''" by code_simp
  have e: "fileCache ?st = ?r # ?b # [?c]" by simp
  show ?thesis
    using both_files_context [OF a b c d e, of False] by simp
qed

text \<open>
  A question that contains \<^verbatim>\<open>both files\<close> and also \<^verbatim>\<open>first file\<close> takes the first
  branch of the chain of lines 99 to 108: the context is the first file alone.
\<close>

theorem both_files_loses_to_first_file:
  "extractFileTopics ''Is the first file cited in both files?'' = None
   \<and> str_includes (toLowerCase ''Is the first file cited in both files?'') ''both files''
   \<and> fst (resolveContext ''Is the first file cited in both files?'' False
       \<lparr>fileCache = [\<lparr>file_context = ''robots'', content = ''R''\<rparr>,
                    \<lparr>file_context = ''blockchain'', content = ''B''\<rparr>],
        activeFile = None, compareMode = False\<rparr>) = Inr ''R''
   \<and> fst (resolveContext ''Is the first file cited in both files?'' False
       \<lparr>fileCache = [\<lparr>file_context = ''robots'', content = ''R''\<rparr>,
                    \<lparr>file_context = ''blockchain'', content = ''B''\<rparr>],
        activeFile = None, compareMode = False\<rparr>)
     \<noteq> Inr (''Both Files:'' @ nl @ nl @ ''First File:'' @ nl @ ''R'' @ nl @ nl
           @ ''Second File:'' @ nl @ ''B'')"
  by code_simp

section \<open>The switch phrases\<close>

text \<open>
  C6. For a question that does not match the comparison pattern, the state after lines
  82 to 125 is decided by the first of the phrases \<^verbatim>\<open>first file\<close>, \<^verbatim>\<open>second file\<close>,
  \<^verbatim>\<open>both files\<close> that the lowercased question contains: the first two make element 0,
  respectively element 1, of the cache the active file (\<open>None\<close> when the cache has no
  such element) and switch comparison mode off; the third switches comparison mode on
  and keeps the active file; with none of them the state is unchanged.
\<close>

theorem switch_phrases_in_order:
  assumes "extractFileTopics q = None"
  shows "(str_includes (toLowerCase q) ''first file'' \<longrightarrow>
            snd (resolveContext q flag st)
              = st\<lparr>activeFile := at (fileCache st) 0, compareMode := False\<rparr>)
       \<and> (\<not> str_includes (toLowerCase q) ''first file''
            \<and> str_includes (toLowerCase q) ''second file'' \<longrightarrow>
            snd (resolveContext q flag st)
              = st\<lparr>activeFile := at (fileCache st) 1, compareMode := False\<rparr>)
       \<and> (\<not> str_includes (toLowerCase q) ''first file''
            \<and> \<not> str_includes (toLowerCase q) ''second file''
            \<and> str_includes (toLowerCase q) ''both files'' \<longrightarrow>
            snd (resolveContext q flag st) = st\<lparr>compareMode := True\<rparr>)
       \<and> (\<not> str_includes (toLowerCase q) ''first file''
            \<and> \<not> str_includes (toLowerCase q) ''second file''
            \<and> \<not> str_includes (toLowerCase q) ''both files'' \<longrightarrow>
            snd (resolveContext q flag st) = st)"
  by (simp add: resolve_no_compare [OF assms] switch_files_def Let_def mentions_iff)

theorem switch_phrases_in_order_witness:
  "snd (resolveContext ''Open the FIRST FILE, not the second file or both files'' False
     \<lparr>fileCache = [\<lparr>file_context = ''robots'', content = ''R''\<rparr>,
                  \<lparr>file_context = ''blockchain'', content = ''B''\<rparr>],
      activeFile = Some \<lparr>file_context = ''blockchain'', content = ''B''\<rparr>, compareMode = True\<rparr>)
   = \<lparr>fileCache = [\<lparr>file_context = ''robots'', content = ''R''\<rparr>,
                  \<lparr>file_context = ''blockchain'', content = ''B''\<rparr>],
      activeFile = Some \<lparr>file_context = ''robots'', content = ''R''\<rparr>, compareMode = False\<rparr>
   \<and> snd (resolveContext ''Now the Second File and both files'' False
     \<lparr>fileCache = [\<lparr>file_context = ''robots'', content = ''R''\<rparr>,
                  \<lparr>file_context = ''blockchain'', content = ''B''\<rparr>],
      activeFile = Some \<lparr>file_context = ''robots'', content = ''R''\<rparr>, compareMode = True\<rparr>)
   = \<lparr>fileCache = [\<lparr>file_context = ''robots'', content = ''R''\<rparr>,
                  \<lparr>file_context = ''blockchain'', content = ''B''\<rparr>],
      activeFile = Some \<lparr>file_context = ''blockchain'', content = ''B''\<rparr>, compareMode = False\<rparr>
   \<and> snd (resolveContext ''Use Both Files'' False
     \<lparr>fileCache = [\<lparr>file_context = ''robots'', content = ''R''\<rparr>,
                  \<lparr>file_context = ''blockchain'', content = ''B''\<rparr>],
      activeFile = Some \<lparr>file_context = ''blockchain'', content = ''B''\<rparr>, compareMode = False\<rparr>)
   = \<lparr>fileCache = [\<lparr>file_context = ''robots'', content = ''R''\<rparr>,
                  \<lparr>file_context = ''blockchain'', content = ''B''\<rparr>],
      activeFile = Some \<lparr>file_context = ''blockchain'', content = ''B''\<rparr>, compareMode = True\<rparr>
   \<and> snd (resolveContext ''What is a robot?'' False
     \<lparr>fileCache = [\<lparr>file_context = ''robots'', content = ''R''\<rparr>,
                  \<lparr>file_context = ''blockchain'', content = ''B''\<rparr>],
      activeFile = Some \<lparr>file_context = ''blockchain'', content = ''B''\<rparr>, compareMode = True\<rparr>)
   = \<lparr>fileCache = [\<lparr>file_context = ''robots'', content = ''R''\<rparr>,
                  \<lparr>file_context = ''blockchain'', content = ''B''\<rparr>],
      activeFile = Some \<lparr>file_context = ''blockchain'', content = ''B''\<rparr>, compareMode = True\<rparr>"
proof -
  let ?q1 = "''Open the FIRST FILE, not the second file or both files''"
  let ?q2 = "''Now the Second File and both files''"
  let ?q3 = "''Use Both Files''"
  let ?q4 = "''What is a robot?''"
  let ?r = "\<lparr>file_context = ''robots'', content = ''R''\<rparr>"
  let ?b = "\<lparr>file_context = ''blockchain'', content = ''B''\<rparr>"
  have n1: "extractFileTopics ?q1 = None" by code_simp
  have n2: "extractFileTopics ?q2 = None" by code_simp
  have n3: "extractFileTopics ?q3 = None" by code_simp
  have n4: "extractFileTopics ?q4 = None" by code_simp
  have h1: "str_includes (toLowerCase ?q1) ''first file''" by code_simp
  have h2: "\<not> str_includes (toLowerCase ?q2) ''first file''
            \<and> str_includes (toLowerCase ?q2) ''second file''" by code_simp
  have h3: "\<not> str_includes (toLowerCase ?q3) ''first file''
            \<and> \<not> str_includes (toLowerCase ?q3) ''second file''
            \<and> str_includes (toLowerCase ?q3) ''both files''" by code_simp
  have h4: "\<not> str_includes (toLowerCase ?q4) ''first file''
            \<and> \<not> str_includes (toLowerCase ?q4) ''second file''
            \<and> \<not> str_includes (toLowerCase ?q4) ''both files''" by code_simp
  have c1: "snd (resolveContext ?q1 False \<lparr>fileCache = [?r, ?b], activeFile = Some ?b, compareMode = True\<rparr>)
            = \<lparr>fileCache = [?r, ?b], activeFile = Some ?r, compareMode = False\<rparr>"
    using switch_phrases_in_order [OF n1, of False
        "\<lparr>fileCache = [?r, ?b], activeFile = Some ?b, compareMode = True\<rparr>"] h1
    by (simp add: at_def)
  have c2: "snd (resolveContext ?q2 False \<lparr>fileCache = [?r, ?b], activeFile = Some ?r, compareMode = True\<rparr>)
            = \<lparr>fileCache = [?r, ?b], activeFile = Some ?b, compareMode = False\<rparr>"
    using switch_phrases_in_order [OF n2, of False
        "\<lparr>fileCache = [?r, ?b], activeFile = Some ?r, compareMode = True\<rparr>"] h2
    by (simp add: at_def)
  have c3: "snd (resolveContext ?q3 False \<lparr>fileCache = [?r, ?b], activeFile = Some ?b, compareMode = False\<rparr>)
            = \<lparr>fileCache = [?r, ?b], activeFile = Some ?b, compareMode = True\<rparr>"
    using switch_phrases_in_order [OF n3, of False
        "\<lparr>fileCache = [?r, ?b], activeFile = Some ?b, compareMode = False\<rparr>"] h3
    by simp
  have c4: "snd (resolveContext ?q4 False \<lparr>fileCache = [?r, ?b], activeFile = Some ?b, compareMode = True\<rparr>)
            = \<lparr>fileCache = [?r, ?b], activeFile = Some ?b, compareMode = True\<rparr>"
    using switch_phrases_in_order [OF n4, of False
        "\<lparr>fileCache = [?r, ?b], activeFile = Some ?b, compareMode = True\<rparr>"] h4
    by simp
  from c1 c2 c3 c4 show ?thesis by blast
qed

section \<open>Looking a topic up\<close>

text \<open>
  C7. Let the question match the comparison pattern with the groups \<open>fragment1\<close> and
  \<open>fragment2\<close> as the user wrote them. Let \<open>d1\<close> and \<open>d2\<close> be cache elements whose
  topics are what \<^verbatim>\<open>determineFileContext\<close> returns for their content when the service
  replies \<open>reply1\<close> and \<open>reply2\<close>. If the trimmed reply, lowercased, contains the
  lowercased fragment as a substring, for both, then the lookups of lines 86 and 87
  succeed: lines 82 to 125 produce the comparison block of the two elements found, and
  the handler sends that block to the answer completion instead of answering with
  status 400. Each element found is a cache element whose topic contains the lowercased
  fragment, and it is \<open>d1\<close> (respectively \<open>d2\<close>) itself when no element stored before it
  passes the same test.
\<close>

theorem topic_lookup_substring_case_insensitive:
  assumes "regex_match q = Some (fragment1, fragment2)"
    and "d1 \<in> set (fileCache st)"
    and "infer1 (contextRequest (content d1)) = Some reply1"
    and "determineFileContext infer1 (content d1) = Some (file_context d1)"
    and "str_includes (toLowerCase (trim reply1)) (toLowerCase fragment1)"
    and "d2 \<in> set (fileCache st)"
    and "infer2 (contextRequest (content d2)) = Some reply2"
    and "determineFileContext infer2 (content d2) = Some (file_context d2)"
    and "str_includes (toLowerCase (trim reply2)) (toLowerCase fragment2)"
  shows "\<exists>found1 found2.
       resolveContext q flag st = (Inr (comparison_block found1 found2), st)
     \<and> upload_handler create (Some q) NoFile st
         = (case create (answer_messages (comparison_block found1 found2) q) of
              None \<Rightarrow> ErrorJson 500 ''Error processing the request''
            | Some assistantMessage \<Rightarrow> AnswerJson assistantMessage,
            [answer_messages (comparison_block found1 found2) q], st)
     \<and> found1 \<in> set (fileCache st)
     \<and> str_includes (file_context found1) (toLowerCase fragment1)
     \<and> ((\<forall>e \<in> set (takeWhile (\<lambda>e. e \<noteq> d1) (fileCache st)).
            \<not> str_includes (file_context e) (toLowerCase fragment1)) \<longrightarrow> found1 = d1)
     \<and> found2 \<in> set (fileCache st)
     \<and> str_includes (file_context found2) (toLowerCase fragment2)
     \<and> ((\<forall>e \<in> set (takeWhile (\<lambda>e. e \<noteq> d2) (fileCache st)).
            \<not> str_includes (file_context e) (toLowerCase fragment2)) \<longrightarrow> found2 = d2)"
proof -
  let ?P1 = "\<lambda>f. str_includes (file_context f) (toLowerCase fragment1)"
  let ?P2 = "\<lambda>f. str_includes (file_context f) (toLowerCase fragment2)"
  have e: "extractFileTopics q = Some (toLowerCase fragment1, toLowerCase fragment2)"
    using assms(1) by (simp add: extractFileTopics_def)
  have t1: "file_context d1 = toLowerCase (trim reply1)"
    using assms(3,4) by (simp add: determineFileContext_def)
  have t2: "file_context d2 = toLowerCase (trim reply2)"
    using assms(7,8) by (simp add: determineFileContext_def)
  have p1: "?P1 d1" using assms(5) t1 by simp
  have p2: "?P2 d2" using assms(9) t2 by simp
  from find_Some_ex [OF assms(2), of ?P1, OF p1]
  obtain found1 where f1: "find ?P1 (fileCache st) = Some found1"
    and m1: "found1 \<in> set (fileCache st)" and q1: "?P1 found1" by blast
  from find_Some_ex [OF assms(6), of ?P2, OF p2]
  obtain found2 where f2: "find ?P2 (fileCache st) = Some found2"
    and m2: "found2 \<in> set (fileCache st)" and q2: "?P2 found2" by blast
  have r: "resolveContext q flag' st = (Inr (comparison_block found1 found2), st)" for flag'
    by (rule resolve_compare_found [OF e f1 f2])
  have h: "upload_handler create (Some q) NoFile st
         = (case create (answer_messages (comparison_block found1 found2) q) of
              None \<Rightarrow> ErrorJson 500 ''Error processing the request''
            | Some assistantMessage \<Rightarrow> AnswerJson assistantMessage,
            [answer_messages (comparison_block found1 found2) q], st)"
    by (simp add: upload_handler_def r processing_failure_def split: option.splits)
  have u1: "(\<forall>e \<in> set (takeWhile (\<lambda>e. e \<noteq> d1) (fileCache st)). \<not> ?P1 e) \<longrightarrow> found1 = d1"
    using find_first [OF assms(2), of ?P1, OF p1] f1 by auto
  have u2: "(\<forall>e \<in> set (takeWhile (\<lambda>e. e \<noteq> d2) (fileCache st)). \<not> ?P2 e) \<longrightarrow> found2 = d2"
    using find_first [OF assms(6), of ?P2, OF p2] f2 by auto
  from r [of flag] h m1 q1 u1 m2 q2 u2 show ?thesis by blast
qed

theorem topic_lookup_substring_case_insensitive_witness:
  "upload_handler (\<lambda>m. Some ''They differ.'')
      (Some ''Compare the file about BlockChain and the file about Robots'') NoFile
      \<lparr>fileCache = [\<lparr>file_context = ''robots'', content = ''R''\<rparr>,
                   \<lparr>file_context = ''introduction to blockchain technology'', content = ''B''\<rparr>],
       activeFile = None, compareMode = False\<rparr>
   = (AnswerJson ''They differ.'',
      [answer_messages
         (comparison_block
            \<lparr>file_context = ''introduction to blockchain technology'', content = ''B''\<rparr>
            \<lparr>file_context = ''robots'', content = ''R''\<rparr>)
         ''Compare the file about BlockChain and the file about Robots''],
      \<lparr>fileCache = [\<lparr>file_context = ''robots'', content = ''R''\<rparr>,
                   \<lparr>file_context = ''introduction to blockchain technology'', content = ''B''\<rparr>],
       activeFile = None, compareMode = False\<rparr>)"
proof -
  let ?q = "''Compare the file about BlockChain and the file about Robots''"
  let ?r = "\<lparr>file_context = ''robots'', content = ''R''\<rparr>"
  let ?b = "\<lparr>file_context = ''introduction to blockchain technology'', content = ''B''\<rparr>"
  let ?st = "\<lparr>fileCache = [?r, ?b], activeFile = None, compareMode = False\<rparr>"
  let ?infer1 = "\<lambda>m :: message list. Some '' Introduction to Blockchain Technology ''"
  let ?infer2 = "\<lambda>m :: message list. Some ''ROBOTS''"
  let ?create = "\<lambda>m :: message list. Some ''They differ.''"
  have a: "regex_match ?q = Some (''BlockChain'', ''Robots'')" by code_simp
  have b1: "?b \<in> set (fileCache ?st)" by simp
  have c1: "?infer1 (contextRequest (content ?b)) = Some '' Introduction to Blockchain Technology ''"
    by simp
  have d1: "determineFileContext ?infer1 (content ?b) = Some (file_context ?b)"
    by code_simp
  have e1: "str_includes (toLowerCase (trim '' Introduction to Blockchain Technology ''))
             (toLowerCase ''BlockChain'')" by code_simp
  have b2: "?r \<in> set (fileCache ?st)" by simp
  have c2: "?infer2 (contextRequest (content ?r)) = Some ''ROBOTS''"
    by simp
  have d2: "determineFileContext ?infer2 (content ?r) = Some (file_context ?r)"
    by code_simp
  have e2: "str_includes (toLowerCase (trim ''ROBOTS'')) (toLowerCase ''Robots'')" by code_simp
  have n1: "\<forall>e \<in> set (takeWhile (\<lambda>e. e \<noteq> ?b) (fileCache ?st)).
              \<not> str_includes (file_context e) (toLowerCase ''BlockChain'')" by code_simp
  have n2: "\<forall>e \<in> set (takeWhile (\<lambda>e. e \<noteq> ?r) (fileCache ?st)).
              \<not> str_includes (file_context e) (toLowerCase ''Robots'')" by code_simp
  from topic_lookup_substring_case_insensitive
         [where q = "?q" and st = "?st" and ?d1.0 = "?b" and ?d2.0 = "?r"
            and ?infer1.0 = "?infer1" and ?infer2.0 = "?infer2" and create = "?create"
            and ?fragment1.0 = "''BlockChain''" and ?fragment2.0 = "''Robots''"
            and ?reply1.0 = "'' Introduction to Blockchain Technology ''"
            and ?reply2.0 = "''ROBOTS''" and flag = False,
          OF a b1 c1 d1 e1 b2 c2 d2 e2]
  obtain found1 found2 where
        h: "upload_handler ?create (Some ?q) NoFile ?st
             = (case ?create (answer_messages (comparison_block found1 found2) ?q) of
                  None \<Rightarrow> ErrorJson 500 ''Error processing the request''
                | Some assistantMessage \<Rightarrow> AnswerJson assistantMessage,
                [answer_messages (comparison_block found1 found2) ?q], ?st)"
    and u1: "(\<forall>e \<in> set (takeWhile (\<lambda>e. e \<noteq> ?b) (fileCache ?st)).
                \<not> str_includes (file_context e) (toLowerCase ''BlockChain'')) \<longrightarrow> found1 = ?b"
    and u2: "(\<forall>e \<in> set (takeWhile (\<lambda>e. e \<noteq> ?r) (fileCache ?st)).
                \<not> str_includes (file_context e) (toLowerCase ''Robots'')) \<longrightarrow> found2 = ?r"
    by blast
  from u1 n1 have f1: "found1 = ?b" by blast
  from u2 n2 have f2: "found2 = ?r" by blast
  from h show ?thesis unfolding f1 f2 by simp
qed

section \<open>The only failure\<close>

text \<open>
  C8. Take any state, any upload step that does not throw, and any question. On the state
  the upload step leaves, lines 82 to 125 never read \<^verbatim>\<open>.content\<close> of a missing element,
  and they either produce a context or fail with ComparisonUnavailable; the failure occurs
  only for a question that matches the comparison pattern and has a topic that no cache
  element contains. The fallback of lines 122 and 123 is reached only with a cache that
  is not empty: an uploaded file has just been pushed, and without an upload the empty
  cache is caught by line 117.
\<close>

theorem comparison_unavailable_is_only_failure:
  assumes "read_and_ingest create file st = Inr (calls, st1)"
  shows "fst (resolveContext q (file \<noteq> NoFile) st1) \<noteq> Inl TypeError
     \<and> ((\<exists>ctx. fst (resolveContext q (file \<noteq> NoFile) st1) = Inr ctx)
        \<or> (fst (resolveContext q (file \<noteq> NoFile) st1) = Inl ComparisonUnavailable
           \<and> (\<exists>topic1 topic2. extractFileTopics q = Some (topic1, topic2)
                \<and> (find (\<lambda>f. str_includes (file_context f) topic1) (fileCache st1) = None
                   \<or> find (\<lambda>f. str_includes (file_context f) topic2) (fileCache st1) = None))))"
proof (cases "extractFileTopics q")
  case None
  have "file \<noteq> NoFile \<longrightarrow> fileCache (switch_files q st1) \<noteq> []"
    using read_and_ingest_nonempty [OF assms] by (simp add: switch_files_cache)
  from materialize_defined [OF this, of q]
  obtain ctx where "materialize q (file \<noteq> NoFile) (switch_files q st1) = Inr ctx" ..
  then show ?thesis
    by (simp add: resolve_no_compare [OF None])
next
  case (Some topics)
  obtain topic1 topic2 where t: "topics = (topic1, topic2)" by (cases topics)
  show ?thesis
    using Some t by (auto simp: resolveContext_def split: option.splits)
qed

theorem comparison_unavailable_is_only_failure_witness:
  "fst (resolveContext ''Summarise the second file'' (FileText ''Robots weld cars.'' \<noteq> NoFile)
      \<lparr>fileCache = [\<lparr>file_context = ''robots'', content = ''Robots weld cars.''\<rparr>],
       activeFile = Some \<lparr>file_context = ''robots'', content = ''Robots weld cars.''\<rparr>,
       compareMode = False\<rparr>) \<noteq> Inl TypeError
   \<and> fst (resolveContext ''Summarise the second file'' (FileText ''Robots weld cars.'' \<noteq> NoFile)
      \<lparr>fileCache = [\<lparr>file_context = ''robots'', content = ''Robots weld cars.''\<rparr>],
       activeFile = Some \<lparr>file_context = ''robots'', content = ''Robots weld cars.''\<rparr>,
       compareMode = False\<rparr>) \<noteq> Inl ComparisonUnavailable"
proof -
  let ?d = "\<lparr>file_context = ''robots'', content = ''Robots weld cars.''\<rparr>"
  let ?st1 = "\<lparr>fileCache = [?d], activeFile = Some ?d, compareMode = False\<rparr>"
  have a: "read_and_ingest (\<lambda>m. Some ''Robots'') (FileText ''Robots weld cars.'') initial_state
           = Inr ([contextRequest ''Robots weld cars.''], ?st1)"
    by code_simp
  have b: "extractFileTopics ''Summarise the second file'' = None"
    by code_simp
  show ?thesis
    using comparison_unavailable_is_only_failure [OF a, of "''Summarise the second file''"] b
    by auto
qed

section \<open>No rollback after a failed comparison\<close>

text \<open>
  C9. When a request uploads a file whose topic inference replies, and its question
  matches the comparison pattern with a topic that no element of the cache, the new
  element included, contains, the handler answers with status 400 and leaves the state
  with the new element appended to the cache and set as the active file.
\<close>

theorem failed_comparison_keeps_ingested_document:
  assumes "create (contextRequest fileContent) = Some reply"
    and "extractFileTopics q = Some (topic1, topic2)"
    and "d = \<lparr>file_context = toLowerCase (trim reply), content = fileContent\<rparr>"
    and "(\<forall>f \<in> set (fileCache st @ [d]). \<not> str_includes (file_context f) topic1)
         \<or> (\<forall>f \<in> set (fileCache st @ [d]). \<not> str_includes (file_context f) topic2)"
  shows "upload_handler create (Some q) (FileText fileContent) st
           = (ErrorJson 400 ''One or both files are not available for comparison.'',
              [contextRequest fileContent],
              st\<lparr>fileCache := fileCache st @ [d], activeFile := Some d\<rparr>)"
proof -
  let ?st1 = "st\<lparr>fileCache := fileCache st @ [d], activeFile := Some d\<rparr>"
  have i: "ingest d st = ?st1"
    by (rule ingest_eq)
  have r: "read_and_ingest create (FileText fileContent) st = Inr ([contextRequest fileContent], ?st1)"
    using assms(1,3) i by (simp add: determineFileContext_def)
  from assms(4)
  have "find (\<lambda>f. str_includes (file_context f) topic1) (fileCache ?st1) = None
         \<or> find (\<lambda>f. str_includes (file_context f) topic2) (fileCache ?st1) = None"
    by (auto simp: find_None_iff)
  from resolve_compare_fail [OF assms(2) this]
  have "resolveContext q (FileText fileContent \<noteq> NoFile) ?st1 = (Inl ComparisonUnavailable, ?st1)" .
  then show ?thesis
    by (simp add: upload_handler_def r comparison_unavailable_def del: read_and_ingest.simps)
qed

theorem failed_comparison_keeps_ingested_document_witness:
  "upload_handler (\<lambda>m. Some '' Robots in Industry '')
        (Some ''compare the file about robots and the file about blockchain'')
        (FileText ''Robots weld cars.'')
        \<lparr>fileCache = [\<lparr>file_context = ''cooking'', content = ''C''\<rparr>],
         activeFile = Some \<lparr>file_context = ''cooking'', content = ''C''\<rparr>, compareMode = False\<rparr>
     = (ErrorJson 400 ''One or both files are not available for comparison.'',
        [contextRequest ''Robots weld cars.''],
        \<lparr>fileCache = [\<lparr>file_context = ''cooking'', content = ''C''\<rparr>,
                      \<lparr>file_context = ''robots in industry'', content = ''Robots weld cars.''\<rparr>],
         activeFile = Some \<lparr>file_context = ''robots in industry'', content = ''Robots weld cars.''\<rparr>,
         compareMode = False\<rparr>)"
proof -
  let ?q = "''compare the file about robots and the file about blockchain''"
  let ?c = "\<lparr>file_context = ''cooking'', content = ''C''\<rparr>"
  let ?d = "\<lparr>file_context = ''robots in industry'', content = ''Robots weld cars.''\<rparr>"
  let ?st = "\<lparr>fileCache = [?c], activeFile = Some ?c, compareMode = False\<rparr>"
  have a: "(\<lambda>m. Some '' Robots in Industry '') (contextRequest ''Robots weld cars.'')
           = Some '' Robots in Industry ''"
    by simp
  have b: "extractFileTopics ?q = Some (''robots'', ''blockchain'')"
    by code_simp
  have c: "?d = \<lparr>file_context = toLowerCase (trim '' Robots in Industry ''),
                 content = ''Robots weld cars.''\<rparr>"
    by code_simp
  have d: "(\<forall>f \<in> set (fileCache ?st @ [?d]). \<not> str_includes (file_context f) ''robots'')
         \<or> (\<forall>f \<in> set (fileCache ?st @ [?d]). \<not> str_includes (file_context f) ''blockchain'')"
    by code_simp
  show ?thesis
    using failed_comparison_keeps_ingested_document [OF a b c d] by simp
qed

section \<open>Comparison mode survives an upload\<close>

text \<open>
  C10. In a state with comparison mode on and a cache that starts with \<open>firstFile\<close>,
  \<open>secondFile\<close>, a request that uploads a file (whose topic inference replies) with a
  question that neither matches the comparison pattern nor contains a switch phrase sends
  to the answer completion the block built from the contents of \<open>firstFile\<close> and
  \<open>secondFile\<close>, not the uploaded text; the new element is appended and active, and
  comparison mode stays on.
\<close>

theorem upload_keeps_comparison_mode:
  assumes "compareMode st"
    and "fileCache st = firstFile # secondFile # rest"
    and "extractFileTopics q = None"
    and "\<not> str_includes (toLowerCase q) ''first file''"
    and "\<not> str_includes (toLowerCase q) ''second file''"
    and "\<not> str_includes (toLowerCase q) ''both files''"
    and "create (contextRequest fileContent) = Some reply"
    and "d = \<lparr>file_context = toLowerCase (trim reply), content = fileContent\<rparr>"
    and "ctx = ''Both Files:'' @ nl @ nl @ ''First File:'' @ nl @ content firstFile @ nl @ nl
               @ ''Second File:'' @ nl @ content secondFile"
  shows "upload_handler create (Some q) (FileText fileContent) st
           = (case create (answer_messages ctx q) of
                None \<Rightarrow> ErrorJson 500 ''Error processing the request''
              | Some assistantMessage \<Rightarrow> AnswerJson assistantMessage,
              [contextRequest fileContent, answer_messages ctx q],
              st\<lparr>fileCache := firstFile # secondFile # rest @ [d], activeFile := Some d\<rparr>)"
proof -
  let ?st1 = "st\<lparr>fileCache := firstFile # secondFile # rest @ [d], activeFile := Some d\<rparr>"
  have i: "ingest d st = ?st1"
    using assms(2) by (simp add: ingest_eq)
  have r: "read_and_ingest create (FileText fileContent) st = Inr ([contextRequest fileContent], ?st1)"
    using assms(7,8) i by (simp add: determineFileContext_def)
  have s: "switch_files q ?st1 = ?st1"
    using assms(4-6) by (simp add: switch_files_def Let_def mentions_iff)
  have m: "materialize q True ?st1 = Inr ctx"
    using assms(1,9) by (simp add: materialize_def at_def both_files_block_def)
  have "resolveContext q (FileText fileContent \<noteq> NoFile) ?st1 = (Inr ctx, ?st1)"
    using m by (simp add: resolve_no_compare [OF assms(3)] s)
  then show ?thesis
    by (simp add: upload_handler_def r processing_failure_def del: read_and_ingest.simps
          split: option.splits)
qed

theorem upload_keeps_comparison_mode_witness:
  "upload_handler (\<lambda>m. if length m = 2 then Some ''Cooking'' else Some ''They differ.'')
        (Some ''What is new?'') (FileText ''Cakes rise.'')
        \<lparr>fileCache = [\<lparr>file_context = ''robots'', content = ''R''\<rparr>,
                     \<lparr>file_context = ''blockchain'', content = ''B''\<rparr>],
         activeFile = Some \<lparr>file_context = ''blockchain'', content = ''B''\<rparr>, compareMode = True\<rparr>
     = (AnswerJson ''They differ.'',
        [contextRequest ''Cakes rise.'',
         answer_messages (''Both Files:'' @ nl @ nl @ ''First File:'' @ nl @ ''R'' @ nl @ nl
               @ ''Second File:'' @ nl @ ''B'') ''What is new?''],
        \<lparr>fileCache = [\<lparr>file_context = ''robots'', content = ''R''\<rparr>,
                     \<lparr>file_context = ''blockchain'', content = ''B''\<rparr>,
                     \<lparr>file_context = ''cooking'', content = ''Cakes rise.''\<rparr>],
         activeFile = Some \<lparr>file_context = ''cooking'', content = ''Cakes rise.''\<rparr>,
         compareMode = True\<rparr>)"
proof -
  let ?create = "\<lambda>m :: message list. if length m = 2 then Some ''Cooking'' else Some ''They differ.''"
  let ?q = "''What is new?''"
  let ?r = "\<lparr>file_context = ''robots'', content = ''R''\<rparr>"
  let ?b = "\<lparr>file_context = ''blockchain'', content = ''B''\<rparr>"
  let ?d = "\<lparr>file_context = ''cooking'', content = ''Cakes rise.''\<rparr>"
  let ?st = "\<lparr>fileCache = [?r, ?b], activeFile = Some ?b, compareMode = True\<rparr>"
  let ?ctx = "''Both Files:'' @ nl @ nl @ ''First File:'' @ nl @ content ?r @ nl @ nl
               @ ''Second File:'' @ nl @ content ?b"
  have a: "compareMode ?st" by simp
  have b: "fileCache ?st = ?r # ?b # []" by simp
  have c: "extractFileTopics ?q = None" by code_simp
  have d: "\<not> str_includes (toLowerCase ?q) ''first file''" by code_simp
  have e: "\<not> str_includes (toLowerCase ?q) ''second file''" by code_simp
  have f: "\<not> str_includes (toLowerCase ?q) ''both files''" by code_simp
  have g: "?create (contextRequest ''Cakes rise.'') = Some ''Cooking''"
    by (simp add: contextRequest_def)
  have h: "?d = \<lparr>file_context = toLowerCase (trim ''Cooking''), content = ''Cakes rise.''\<rparr>"
    by code_simp
  have k: "?create (answer_messages ?ctx ?q) = Some ''They differ.''"
    by (simp add: answer_messages_def)
  show ?thesis
    using upload_keeps_comparison_mode
            [where create = "?create" and st = "?st" and q = "?q" and fileContent = "''Cakes rise.''"
               and reply = "''Cooking''" and d = "?d" and ctx = "?ctx"
               and firstFile = "?r" and secondFile = "?b" and rest = "[]", OF a b c d e f g h refl] k
    by simp
qed

end
